theory Spec2Isabelle
  imports Main "HOL-Library.Sublist"
begin

section \<open>The Matrix <-> Zulip bridge (matrix bridge)\<close>

text \<open>
  A shallow embedding of \<^verbatim>\<open>zulip/integrations/matrix/matrix_bridge.py\<close>. The two relay
  callbacks are pure functions that return the trace of the calls they issue on the two
  client handles together with their outcome (normal return, or the exception that
  leaves the callback).
\<close>

subsection \<open>Python values\<close>

text \<open>
  Events and messages are \<^verbatim>\<open>Dict[str, Any]\<close>, decoded from JSON by the client libraries:
  a value is \<^verbatim>\<open>None\<close>, a boolean, an integer, a string, a list or a dict with string keys.
  A dict is an association list; the first binding of a key is the one the dict holds.
\<close>

datatype pyval =
    PNone
  | PBool bool
  | PInt int
  | PStr string
  | PList "pyval list"
  | PDict "(string \<times> pyval) list"

type_synonym pydict = "(string \<times> pyval) list"

text \<open>
  The exceptions that can leave the callbacks. \<^verbatim>\<open>Exception(e)\<close> wraps either the
  \<^verbatim>\<open>MatrixRequestError\<close> it was raised from or the \<^verbatim>\<open>msg\<close> of a Zulip acknowledgement.
\<close>

datatype exc_arg = Of_MatrixRequestError string | Of_msg string

datatype error =
    KeyError string
  | TypeError
  | UnboundLocalError string
  | MatrixRequestError string
  | OtherError string
  | Exception exc_arg

text \<open>\<^verbatim>\<open>d[k]\<close> on a dict: \<^verbatim>\<open>KeyError\<close> when the key is missing.\<close>

definition py_getitem :: "pydict \<Rightarrow> string \<Rightarrow> error + pyval" where
  "py_getitem d k = (case map_of d k of None \<Rightarrow> Inl (KeyError k) | Some v \<Rightarrow> Inr v)"

text \<open>
  \<^verbatim>\<open>v[k]\<close> with a string key on any value: only a dict can be indexed by a string; a
  string or a list wants an integer index and the other values are not subscriptable
  (\<^verbatim>\<open>TypeError\<close> in each case).
\<close>

definition py_subscript :: "pyval \<Rightarrow> string \<Rightarrow> error + pyval" where
  "py_subscript v k = (case v of PDict d \<Rightarrow> py_getitem d k | _ \<Rightarrow> Inl TypeError)"

text \<open>\<^verbatim>\<open>p in s\<close> on two strings: \<open>p\<close> occurs in \<open>s\<close> as a contiguous substring.\<close>

fun py_substring :: "string \<Rightarrow> string \<Rightarrow> bool" where
  "py_substring p [] = (p = [])"
| "py_substring p (c # cs) = (prefix p (c # cs) \<or> py_substring p cs)"

text \<open>
  \<^verbatim>\<open>k in v\<close> for a string \<open>k\<close>: key membership on a dict, substring test on a string,
  element membership on a list, \<^verbatim>\<open>TypeError\<close> on a value that is not iterable.
\<close>

definition py_contains :: "string \<Rightarrow> pyval \<Rightarrow> error + bool" where
  "py_contains k v =
     (case v of
        PDict d \<Rightarrow> Inr (k \<in> set (map fst d))
      | PStr s \<Rightarrow> Inr (py_substring k s)
      | PList xs \<Rightarrow> Inr (PStr k \<in> set xs)
      | _ \<Rightarrow> Inl TypeError)"

text \<open>
  \<^verbatim>\<open>"{0}".format(v)\<close> renders \<^verbatim>\<open>str(v)\<close>: a string is rendered as itself. The rendering
  of the other values (numbers, lists, dicts) is Python's own and is taken as the
  parameter \<open>repr\<close>.
\<close>

definition py_str :: "(pyval \<Rightarrow> string) \<Rightarrow> pyval \<Rightarrow> string" where
  "py_str repr v = (case v of PStr s \<Rightarrow> s | _ \<Rightarrow> repr v)"

text \<open>
  \<^verbatim>\<open>s.replace(old, new)\<close>: every non-overlapping occurrence of \<open>old\<close>, found from the
  left, is replaced by \<open>new\<close>.
\<close>

function py_replace :: "string \<Rightarrow> string \<Rightarrow> string \<Rightarrow> string" where
  "py_replace old new [] = (if old = [] then new else [])"
| "py_replace old new (c # cs) =
     (if old = [] then new @ c # py_replace old new cs
      else if prefix old (c # cs) then new @ py_replace old new (drop (length old) (c # cs))
      else c # py_replace old new cs)"
  by pat_completeness auto
termination
  by (relation "measure (\<lambda>(old, new, s). length s)") auto

subsection \<open>Configuration, client handles and the calls issued on them\<close>

text \<open>
  \<^verbatim>\<open>matrix_bridge_config.config\<close> is loaded from a module that is not part of this file;
  its entries are strings.
\<close>

record zulip_config =
  zc_email :: string
  zc_api_key :: string
  zc_site :: string
  zc_stream :: string
  zc_subject :: string

record matrix_config =
  mc_host :: string
  mc_username :: string
  mc_password :: string
  mc_room_id :: string

text \<open>The request dict handed to \<^verbatim>\<open>zulip_client.send_message\<close>.\<close>

record request =
  req_sender :: string
  req_type :: string
  req_to :: string
  req_subject :: string
  req_content :: pyval

text \<open>
  The acknowledgement \<^verbatim>\<open>zulip_client.send_message\<close> returns: the callback reads its
  \<^verbatim>\<open>'result'\<close> and \<^verbatim>\<open>'msg'\<close> entries.
\<close>

record ack =
  ack_result :: string
  ack_msg :: string

text \<open>
  The Zulip client handle: its \<^verbatim>\<open>email\<close> attribute and its \<^verbatim>\<open>send_message\<close> method,
  which returns an acknowledgement or raises. The Matrix room handle: its
  \<^verbatim>\<open>send_text\<close> method, which returns nothing or raises.
\<close>

record zulip_client =
  email :: string
  send_message :: "request \<Rightarrow> error + ack"

record matrix_room =
  send_text :: "string \<Rightarrow> error option"

text \<open>What a callback does to the outside, in order.\<close>

datatype action =
    Print string
  | Send_text string
  | Send_message request

type_synonym outcome = "action list \<times> (error + unit)"

definition zulip_sends :: "action list \<Rightarrow> request list" where
  "zulip_sends tr = concat (map (\<lambda>a. case a of Send_message r \<Rightarrow> [r] | _ \<Rightarrow> []) tr)"

definition matrix_sends :: "action list \<Rightarrow> string list" where
  "matrix_sends tr = concat (map (\<lambda>a. case a of Send_text t \<Rightarrow> [t] | _ \<Rightarrow> []) tr)"

subsection \<open>Matrix -> Zulip\<close>

definition get_message_content_from_event :: "(pyval \<Rightarrow> string) \<Rightarrow> pydict \<Rightarrow> error + pyval" where
  "get_message_content_from_event repr event =
     (case py_getitem event ''type'' of
        Inl e \<Rightarrow> Inl e
      | Inr ty \<Rightarrow>
          if ty = PStr ''m.room.member'' then
            (case py_getitem event ''membership'' of
               Inl e \<Rightarrow> Inl e
             | Inr m \<Rightarrow>
                 if m = PStr ''join'' then
                   (case py_getitem event ''sender'' of
                      Inl e \<Rightarrow> Inl e
                    | Inr s \<Rightarrow> Inr (PStr (py_str repr s @ '' joined'')))
                 else if m = PStr ''leave'' then
                   (case py_getitem event ''sender'' of
                      Inl e \<Rightarrow> Inl e
                    | Inr s \<Rightarrow> Inr (PStr (py_str repr s @ '' quit'')))
                 else Inl (UnboundLocalError ''content''))
          else if ty = PStr ''m.room.message'' then
            (case py_getitem event ''content'' of
               Inl e \<Rightarrow> Inl e
             | Inr c \<Rightarrow>
                 (case py_subscript c ''msgtype'' of
                    Inl e \<Rightarrow> Inl e
                  | Inr mt \<Rightarrow>
                      if mt = PStr ''m.text'' \<or> mt = PStr ''m.emote'' then
                        (case py_getitem event ''sender'' of
                           Inl e \<Rightarrow> Inl e
                         | Inr s \<Rightarrow>
                             (case py_subscript c ''body'' of
                                Inl e \<Rightarrow> Inl e
                              | Inr b \<Rightarrow> Inr (PStr (py_str repr s @ '': '' @ py_str repr b))))
                      else Inl (UnboundLocalError ''content'')))
          else Inr ty)"

text \<open>
  The identity of an account on Matrix, as it arrives in the \<^verbatim>\<open>sender\<close> field of the
  events of that account: the user ID made of the local part and the name of the
  homeserver. The bridge logs in as \<^verbatim>\<open>matrix_config["username"]\<close> on the homeserver
  behind \<^verbatim>\<open>matrix_config["host"]\<close>, so its own identity is
  \<open>matrix_user_id (mc_username matrix_config) homeserver\<close> for the name of that
  homeserver.
\<close>

definition matrix_user_id :: "string \<Rightarrow> string \<Rightarrow> string" where
  "matrix_user_id localpart homeserver = ''@'' @ localpart @ '':'' @ homeserver"

text \<open>\<^verbatim>\<open>'@%s:matrix.org' % matrix_config['username']\<close>\<close>

definition zulip_bot_user :: "matrix_config \<Rightarrow> string" where
  "zulip_bot_user matrix_config = ''@'' @ mc_username matrix_config @ '':matrix.org''"

text \<open>
  \<^verbatim>\<open>'body' not in event['content'] or event['sender'] != zulip_bot_user\<close>; the right
  operand is evaluated only when the left one is false.
\<close>

definition not_from_zulip_bot :: "matrix_config \<Rightarrow> pydict \<Rightarrow> error + bool" where
  "not_from_zulip_bot matrix_config event =
     (case py_getitem event ''content'' of
        Inl e \<Rightarrow> Inl e
      | Inr c \<Rightarrow>
          (case py_contains ''body'' c of
             Inl e \<Rightarrow> Inl e
           | Inr has_body \<Rightarrow>
               if \<not> has_body then Inr True
               else
                 (case py_getitem event ''sender'' of
                    Inl e \<Rightarrow> Inl e
                  | Inr s \<Rightarrow> Inr (s \<noteq> PStr (zulip_bot_user matrix_config)))))"

text \<open>
  The closure \<^verbatim>\<open>_matrix_to_zulip(room, event)\<close> that \<^verbatim>\<open>matrix_to_zulip\<close> returns; the room
  argument is not used.
\<close>

definition matrix_to_zulip ::
  "(pyval \<Rightarrow> string) \<Rightarrow> zulip_client \<Rightarrow> zulip_config \<Rightarrow> matrix_config \<Rightarrow> 'room \<Rightarrow> pydict \<Rightarrow> outcome"
where
  "matrix_to_zulip repr client zulip_config matrix_config room event =
     (case get_message_content_from_event repr event of
        Inl e \<Rightarrow> ([], Inl e)
      | Inr content \<Rightarrow>
          (case not_from_zulip_bot matrix_config event of
             Inl e \<Rightarrow> ([], Inl e)
           | Inr False \<Rightarrow> ([], Inr ())
           | Inr True \<Rightarrow>
               (let req = \<lparr> req_sender = email client,
                            req_type = ''stream'',
                            req_to = zc_stream zulip_config,
                            req_subject = zc_subject zulip_config,
                            req_content = content \<rparr>
                in case send_message client req of
                     Inl (MatrixRequestError e) \<Rightarrow>
                       ([Send_message req], Inl (Exception (Of_MatrixRequestError e)))
                   | Inl e \<Rightarrow> ([Send_message req], Inl e)
                   | Inr result \<Rightarrow>
                       if ack_result result \<noteq> ''success''
                       then ([Send_message req], Inl (Exception (Of_msg (ack_msg result))))
                       else ([Send_message req], Inr ()))))"

subsection \<open>Zulip -> Matrix\<close>

text \<open>\<^verbatim>\<open>"@**{0}**:{1}".format(full_name, site)\<close>\<close>

definition zulip_to_matrix_username :: "(pyval \<Rightarrow> string) \<Rightarrow> pyval \<Rightarrow> string \<Rightarrow> string" where
  "zulip_to_matrix_username repr full_name site = ''@**'' @ py_str repr full_name @ ''**:'' @ site"

text \<open>\<^verbatim>\<open>config["site"].replace("https://", "").replace("http://", "")\<close>\<close>

definition site_without_http :: "zulip_config \<Rightarrow> string" where
  "site_without_http config = py_replace ''http://'' '''' (py_replace ''https://'' '''' (zc_site config))"

text \<open>The closure \<^verbatim>\<open>_zulip_to_matrix(msg)\<close> that \<^verbatim>\<open>zulip_to_matrix(config, room)\<close> returns.\<close>

definition zulip_to_matrix ::
  "(pyval \<Rightarrow> string) \<Rightarrow> zulip_config \<Rightarrow> matrix_room \<Rightarrow> pydict \<Rightarrow> outcome"
where
  "zulip_to_matrix repr config room msg =
     (case py_getitem msg ''type'' of
        Inl e \<Rightarrow> ([], Inl e)
      | Inr ty \<Rightarrow>
     (case py_getitem msg ''sender_email'' of
        Inl e \<Rightarrow> ([], Inl e)
      | Inr sender_email \<Rightarrow>
     (case py_getitem msg ''display_recipient'' of
        Inl e \<Rightarrow> ([], Inl e)
      | Inr display_recipient \<Rightarrow>
     (case py_getitem msg ''subject'' of
        Inl e \<Rightarrow> ([], Inl e)
      | Inr subject \<Rightarrow>
          (let isa_stream = (ty = PStr ''stream'');
               not_from_bot = (sender_email \<noteq> PStr (zc_email config));
               in_the_specified_stream = (display_recipient = PStr (zc_stream config));
               at_the_specified_subject = (subject = PStr (zc_subject config))
           in if isa_stream \<and> not_from_bot \<and> in_the_specified_stream \<and> at_the_specified_subject
              then
                (case py_getitem msg ''sender_full_name'' of
                   Inl e \<Rightarrow> ([], Inl e)
                 | Inr full_name \<Rightarrow>
                     (let matrix_username =
                            zulip_to_matrix_username repr full_name (site_without_http config)
                      in case py_getitem msg ''content'' of
                           Inl e \<Rightarrow> ([], Inl e)
                         | Inr content \<Rightarrow>
                             (let matrix_text = matrix_username @ '': '' @ py_str repr content
                              in case send_text room matrix_text of
                                   Some e \<Rightarrow> ([Print matrix_text, Send_text matrix_text], Inl e)
                                 | None \<Rightarrow> ([Print matrix_text, Send_text matrix_text], Inr ()))))
              else ([], Inr ()))))))"

subsection \<open>An example configuration\<close>

text \<open>
  One bridge between the stream \<^verbatim>\<open>mirror\<close>, topic \<^verbatim>\<open>general\<close>, and one Matrix room, with the
  bot registered as \<^verbatim>\<open>bot\<close>; the concrete inputs of the examples below.
\<close>

definition example_repr :: "pyval \<Rightarrow> string" where
  "example_repr v = ''?''"

definition example_zulip_config :: zulip_config where
  "example_zulip_config =
     \<lparr> zc_email = ''bridge-bot@host'', zc_api_key = ''secret'', zc_site = ''https://host'',
       zc_stream = ''mirror'', zc_subject = ''general'' \<rparr>"

definition example_matrix_config :: matrix_config where
  "example_matrix_config =
     \<lparr> mc_host = ''https://matrix.example.org'', mc_username = ''bot'', mc_password = ''secret'',
       mc_room_id = ''!abc:host'' \<rparr>"

definition example_zulip_config_nested_site :: zulip_config where
  "example_zulip_config_nested_site =
     \<lparr> zc_email = ''bridge-bot@host'', zc_api_key = ''secret'',
       zc_site = ''https://host/http://x'', zc_stream = ''mirror'', zc_subject = ''general'' \<rparr>"

definition example_matrix_config_matrix_org :: matrix_config where
  "example_matrix_config_matrix_org =
     \<lparr> mc_host = ''https://matrix.org'', mc_username = ''bot'', mc_password = ''secret'',
       mc_room_id = ''!abc:host'' \<rparr>"

definition example_client :: zulip_client where
  "example_client =
     \<lparr> email = ''bridge-bot@host'',
       send_message = (\<lambda>r. Inr \<lparr> ack_result = ''success'', ack_msg = '''' \<rparr>) \<rparr>"

definition example_client_forbidden :: zulip_client where
  "example_client_forbidden =
     \<lparr> email = ''bridge-bot@host'',
       send_message = (\<lambda>r. Inl (MatrixRequestError ''403'')) \<rparr>"

definition example_client_invalid_key :: zulip_client where
  "example_client_invalid_key =
     \<lparr> email = ''bridge-bot@host'',
       send_message = (\<lambda>r. Inr \<lparr> ack_result = ''error'', ack_msg = ''Invalid API key'' \<rparr>) \<rparr>"

definition example_room :: matrix_room where
  "example_room = \<lparr> send_text = (\<lambda>t. None) \<rparr>"

definition example_msg_alice :: pydict where
  "example_msg_alice =
     [(''type'', PStr ''stream''), (''sender_email'', PStr ''alice@host''),
      (''display_recipient'', PStr ''mirror''), (''subject'', PStr ''general''),
      (''sender_full_name'', PStr ''alice''), (''content'', PStr ''hello'')]"

definition example_msg_private :: pydict where
  "example_msg_private =
     [(''type'', PStr ''private''), (''sender_email'', PStr ''alice@host''),
      (''display_recipient'', PStr ''mirror''), (''subject'', PStr ''general''),
      (''sender_full_name'', PStr ''alice''), (''content'', PStr ''hello'')]"

definition example_msg_from_bot :: pydict where
  "example_msg_from_bot =
     [(''type'', PStr ''stream''), (''sender_email'', PStr ''bridge-bot@host''),
      (''display_recipient'', PStr ''mirror''), (''subject'', PStr ''general''),
      (''sender_full_name'', PStr ''bridge''), (''content'', PStr ''bob joined'')]"

definition example_msg_other_stream :: pydict where
  "example_msg_other_stream =
     [(''type'', PStr ''stream''), (''sender_email'', PStr ''alice@host''),
      (''display_recipient'', PStr ''lounge''), (''subject'', PStr ''general''),
      (''sender_full_name'', PStr ''alice''), (''content'', PStr ''hello'')]"

definition example_msg_other_subject :: pydict where
  "example_msg_other_subject =
     [(''type'', PStr ''stream''), (''sender_email'', PStr ''alice@host''),
      (''display_recipient'', PStr ''mirror''), (''subject'', PStr ''lunch''),
      (''sender_full_name'', PStr ''alice''), (''content'', PStr ''hello'')]"

definition example_event_bob :: pydict where
  "example_event_bob =
     [(''type'', PStr ''m.room.message''), (''sender'', PStr ''bob''),
      (''content'', PDict [(''msgtype'', PStr ''m.text''), (''body'', PStr ''hi'')])]"

definition example_event_echo :: pydict where
  "example_event_echo =
     [(''type'', PStr ''m.room.message''), (''sender'', PStr ''@bot:matrix.org''),
      (''content'', PDict [(''msgtype'', PStr ''m.text''), (''body'', PStr ''@**alice**:host: hello'')])]"

definition example_event_echo_elsewhere :: pydict where
  "example_event_echo_elsewhere =
     [(''type'', PStr ''m.room.message''), (''sender'', PStr ''@bot:example.org''),
      (''content'', PDict [(''msgtype'', PStr ''m.text''), (''body'', PStr ''@**alice**:host: hello'')])]"

definition example_event_namesake :: pydict where
  "example_event_namesake =
     [(''type'', PStr ''m.room.message''), (''sender'', PStr ''@bot:matrix.org''),
      (''content'', PDict [(''msgtype'', PStr ''m.text''), (''body'', PStr ''hi'')])]"

definition example_event_bot_join :: pydict where
  "example_event_bot_join =
     [(''type'', PStr ''m.room.member''), (''membership'', PStr ''join''),
      (''sender'', PStr ''@bot:matrix.org''),
      (''content'', PDict [(''membership'', PStr ''join'')])]"

definition example_event_join :: pydict where
  "example_event_join =
     [(''type'', PStr ''m.room.member''), (''membership'', PStr ''join''),
      (''sender'', PStr ''bob''), (''content'', PDict [(''membership'', PStr ''join'')])]"

definition example_event_leave :: pydict where
  "example_event_leave =
     [(''type'', PStr ''m.room.member''), (''membership'', PStr ''leave''),
      (''sender'', PStr ''bob''), (''content'', PDict [(''membership'', PStr ''leave'')])]"

definition example_event_ban :: pydict where
  "example_event_ban =
     [(''type'', PStr ''m.room.member''), (''membership'', PStr ''ban''),
      (''sender'', PStr ''bob''), (''content'', PDict [(''membership'', PStr ''ban'')])]"

definition example_event_no_body :: pydict where
  "example_event_no_body =
     [(''type'', PStr ''m.room.message''), (''sender'', PStr ''bob''),
      (''content'', PDict [(''msgtype'', PStr ''m.text'')])]"

definition example_event_bot_image :: pydict where
  "example_event_bot_image =
     [(''type'', PStr ''m.room.message''), (''sender'', PStr ''@bot:matrix.org''),
      (''content'', PDict [(''msgtype'', PStr ''m.image''), (''body'', PStr ''cat.png'')])]"

lemmas example_defs =
  example_repr_def example_zulip_config_def example_matrix_config_def example_client_def
  example_zulip_config_nested_site_def example_matrix_config_matrix_org_def
  example_event_echo_elsewhere_def example_event_namesake_def
  example_client_forbidden_def example_client_invalid_key_def example_room_def
  example_msg_alice_def example_msg_private_def example_msg_from_bot_def
  example_msg_other_stream_def example_msg_other_subject_def example_event_bob_def
  example_event_echo_def example_event_bot_join_def example_event_join_def
  example_event_leave_def example_event_ban_def example_event_no_body_def
  example_event_bot_image_def

section \<open>Properties\<close>

subsection \<open>Lookups and string replacement\<close>

lemma py_getitem_error: "py_getitem d k = Inl e \<Longrightarrow> e = KeyError k"
  by (simp add: py_getitem_def split: option.splits)

lemma py_subscript_error: "py_subscript v k = Inl e \<Longrightarrow> e = KeyError k \<or> e = TypeError"
  by (cases v) (auto simp: py_subscript_def dest: py_getitem_error)

lemma py_subscript_contains:
  "py_subscript c k = Inr v \<Longrightarrow> py_contains k c = Inr True"
  by (cases c) (auto simp: py_subscript_def py_contains_def py_getitem_def
      split: option.splits dest: map_of_SomeD intro: rev_image_eqI)

lemma py_replace_absent:
  "old \<noteq> [] \<Longrightarrow> \<not> py_substring old s \<Longrightarrow> py_replace old new s = s"
  by (induction s) auto

lemma strip_https:
  "py_replace ''https://'' '''' (''https://'' @ h) = py_replace ''https://'' '''' h"
  by simp

lemma strip_http:
  "py_replace ''http://'' '''' (''http://'' @ h) = py_replace ''http://'' '''' h"
  by simp

lemma https_keeps_http:
  "py_replace ''https://'' '''' (''http://'' @ h) = ''http://'' @ py_replace ''https://'' '''' h"
  by simp

text \<open>
  On a site that is a host with or without one leading scheme, where the host itself
  holds neither scheme, the two replacements leave the host.
\<close>

lemma site_without_http_strips:
  assumes "zc_site config = ''https://'' @ h \<or> zc_site config = ''http://'' @ h \<or> zc_site config = h"
    and "\<not> py_substring ''https://'' h" and "\<not> py_substring ''http://'' h"
  shows "site_without_http config = h"
proof -
  have a: "py_replace ''https://'' '''' h = h" and b: "py_replace ''http://'' '''' h = h"
    using assms(2,3) by (simp_all add: py_replace_absent)
  from assms(1) consider "zc_site config = ''https://'' @ h" | "zc_site config = ''http://'' @ h"
    | "zc_site config = h" by blast
  then show ?thesis
  proof cases
    case 1
    then show ?thesis unfolding site_without_http_def using strip_https [of h] a b by simp
  next
    case 2
    then show ?thesis unfolding site_without_http_def
      using https_keeps_http [of h] strip_http [of h] a b by simp
  next
    case 3
    then show ?thesis unfolding site_without_http_def using a b by simp
  qed
qed

text \<open>
  The replacement deletes the leftmost occurrence and goes on behind it.
\<close>

lemma py_replace_at_occurrence:
  assumes "old \<noteq> []"
  shows "py_replace old new (old @ b) = new @ py_replace old new b"
proof -
  from assms obtain c cs where o: "old = c # cs" by (cases old) auto
  have "py_replace old new (c # (cs @ b)) = new @ py_replace old new (drop (length old) (c # (cs @ b)))"
    using assms by (simp add: o)
  then show ?thesis by (simp add: o)
qed

lemma py_replace_first_occurrence:
  assumes "old \<noteq> []" and "\<not> py_substring old (a @ butlast old)"
  shows "py_replace old new (a @ old @ b) = a @ new @ py_replace old new b"
  using assms(2)
proof (induction a)
  case Nil
  show ?case using py_replace_at_occurrence [OF assms(1)] by simp
next
  case (Cons x a)
  have np: "\<not> prefix old (x # a @ butlast old)" and ns: "\<not> py_substring old (a @ butlast old)"
    using Cons.prems by simp_all
  have "\<not> prefix old (x # a @ old @ b)"
  proof
    assume p: "prefix old (x # a @ old @ b)"
    have "old = butlast old @ [last old]" using assms(1) by simp
    then have "x # a @ old @ b = (x # a @ butlast old) @ (last old # b)"
      by (metis append.assoc append_Cons append_Nil)
    then have q: "prefix (x # a @ butlast old) (x # a @ old @ b)"
      by (metis prefixI)
    have "length old \<le> length (x # a @ butlast old)" using assms(1) by (cases old) auto
    with p q have "prefix old (x # a @ butlast old)" by (rule prefix_length_prefix)
    with np show False by contradiction
  qed
  then have "py_replace old new (x # a @ old @ b) = x # py_replace old new (a @ old @ b)"
    using assms(1) by simp
  then show ?case using Cons.IH [OF ns] by simp
qed

text \<open>
  A scheme inside the site is deleted as well as the leading one.
\<close>

lemma site_without_http_inner:
  assumes "zc_site config = ''https://'' @ a @ ''http://'' @ b"
    and "\<not> py_substring ''https://'' (a @ ''http://'' @ b)"
    and "\<not> py_substring ''http://'' (a @ ''http:/'')"
    and "\<not> py_substring ''http://'' b"
  shows "site_without_http config = a @ b"
proof -
  have "py_replace ''https://'' '''' (''https://'' @ (a @ ''http://'' @ b))
          = py_replace ''https://'' '''' (a @ ''http://'' @ b)"
    by (rule strip_https)
  also have "\<dots> = a @ ''http://'' @ b"
    using assms(2) by (simp add: py_replace_absent del: py_substring.simps)
  finally have 1: "py_replace ''https://'' '''' (zc_site config) = a @ ''http://'' @ b"
    using assms(1) by simp
  have "\<not> py_substring ''http://'' (a @ butlast ''http://'')"
    using assms(3) by simp
  then have "py_replace ''http://'' '''' (a @ ''http://'' @ b)
          = a @ '''' @ py_replace ''http://'' '''' b"
    by (intro py_replace_first_occurrence) simp_all
  also have "\<dots> = a @ b"
    using assms(4) by (simp add: py_replace_absent)
  finally show ?thesis
    unfolding site_without_http_def 1 .
qed

subsection \<open>The Zulip -> Matrix callback\<close>

lemma zulip_to_matrix_filtered:
  assumes "py_getitem msg ''type'' \<noteq> Inr (PStr ''stream'')
         \<or> py_getitem msg ''sender_email'' = Inr (PStr (zc_email config))
         \<or> py_getitem msg ''display_recipient'' \<noteq> Inr (PStr (zc_stream config))
         \<or> py_getitem msg ''subject'' \<noteq> Inr (PStr (zc_subject config))"
  shows "fst (zulip_to_matrix repr config room msg) = []"
  using assms by (auto simp: zulip_to_matrix_def Let_def split: sum.splits)

lemma zulip_to_matrix_relayed:
  assumes "py_getitem msg ''type'' = Inr (PStr ''stream'')"
    and "py_getitem msg ''sender_email'' = Inr sender_email"
    and "sender_email \<noteq> PStr (zc_email config)"
    and "py_getitem msg ''display_recipient'' = Inr (PStr (zc_stream config))"
    and "py_getitem msg ''subject'' = Inr (PStr (zc_subject config))"
    and "py_getitem msg ''sender_full_name'' = Inr full_name"
    and "py_getitem msg ''content'' = Inr content"
  shows "fst (zulip_to_matrix repr config room msg) =
           [Print (''@**'' @ py_str repr full_name @ ''**:'' @ site_without_http config
                     @ '': '' @ py_str repr content),
            Send_text (''@**'' @ py_str repr full_name @ ''**:'' @ site_without_http config
                     @ '': '' @ py_str repr content)]"
  using assms
  by (simp add: zulip_to_matrix_def Let_def zulip_to_matrix_username_def split: option.splits)

subsection \<open>Content rendering\<close>

lemma render_no_type:
  "py_getitem event ''type'' = Inl e \<Longrightarrow> get_message_content_from_event repr event = Inl e"
  by (simp add: get_message_content_from_event_def)

lemma render_member_branch:
  "py_getitem event ''type'' = Inr (PStr ''m.room.member'') \<Longrightarrow>
   get_message_content_from_event repr event =
     (case py_getitem event ''membership'' of
        Inl e \<Rightarrow> Inl e
      | Inr m \<Rightarrow>
          if m = PStr ''join'' \<or> m = PStr ''leave'' then
            (case py_getitem event ''sender'' of
               Inl e \<Rightarrow> Inl e
             | Inr s \<Rightarrow>
                 Inr (PStr (py_str repr s @ (if m = PStr ''join'' then '' joined'' else '' quit''))))
          else Inl (UnboundLocalError ''content''))"
  by (simp add: get_message_content_from_event_def split: sum.splits)

lemma render_message_branch:
  "py_getitem event ''type'' = Inr (PStr ''m.room.message'') \<Longrightarrow>
   get_message_content_from_event repr event =
     (case py_getitem event ''content'' of
        Inl e \<Rightarrow> Inl e
      | Inr c \<Rightarrow>
          (case py_subscript c ''msgtype'' of
             Inl e \<Rightarrow> Inl e
           | Inr mt \<Rightarrow>
               if mt = PStr ''m.text'' \<or> mt = PStr ''m.emote'' then
                 (case py_getitem event ''sender'' of
                    Inl e \<Rightarrow> Inl e
                  | Inr s \<Rightarrow>
                      (case py_subscript c ''body'' of
                         Inl e \<Rightarrow> Inl e
                       | Inr b \<Rightarrow> Inr (PStr (py_str repr s @ '': '' @ py_str repr b))))
               else Inl (UnboundLocalError ''content'')))"
  by (simp add: get_message_content_from_event_def)

lemma render_other_branch:
  "py_getitem event ''type'' = Inr ty \<Longrightarrow> ty \<noteq> PStr ''m.room.member'' \<Longrightarrow>
   ty \<noteq> PStr ''m.room.message'' \<Longrightarrow> get_message_content_from_event repr event = Inr ty"
  by (simp add: get_message_content_from_event_def)

lemma render_message:
  assumes "py_getitem event ''type'' = Inr (PStr ''m.room.message'')"
    and "py_getitem event ''content'' = Inr c"
    and "py_subscript c ''msgtype'' = Inr mt"
    and "mt = PStr ''m.text'' \<or> mt = PStr ''m.emote''"
    and "py_getitem event ''sender'' = Inr s"
    and "py_subscript c ''body'' = Inr b"
  shows "get_message_content_from_event repr event =
           Inr (PStr (py_str repr s @ '': '' @ py_str repr b))"
  using assms by (simp add: render_message_branch)

lemma render_member:
  assumes "py_getitem event ''type'' = Inr (PStr ''m.room.member'')"
    and "py_getitem event ''sender'' = Inr s"
  shows "py_getitem event ''membership'' = Inr (PStr ''join'') \<Longrightarrow>
           get_message_content_from_event repr event = Inr (PStr (py_str repr s @ '' joined''))"
    and "py_getitem event ''membership'' = Inr (PStr ''leave'') \<Longrightarrow>
           get_message_content_from_event repr event = Inr (PStr (py_str repr s @ '' quit''))"
  using assms by (simp_all add: render_member_branch)

lemma render_unbound_iff:
  "get_message_content_from_event repr event = Inl (UnboundLocalError x) \<longleftrightarrow>
     x = ''content'' \<and>
     ((py_getitem event ''type'' = Inr (PStr ''m.room.member'') \<and>
       (\<exists>m. py_getitem event ''membership'' = Inr m \<and> m \<noteq> PStr ''join'' \<and> m \<noteq> PStr ''leave''))
    \<or> (py_getitem event ''type'' = Inr (PStr ''m.room.message'') \<and>
       (\<exists>c mt. py_getitem event ''content'' = Inr c \<and> py_subscript c ''msgtype'' = Inr mt \<and>
          mt \<noteq> PStr ''m.text'' \<and> mt \<noteq> PStr ''m.emote'')))"
proof (cases "py_getitem event ''type''")
  case (Inl e)
  then show ?thesis
    using py_getitem_error [OF Inl] by (simp add: render_no_type)
next
  case (Inr ty)
  consider (member) "ty = PStr ''m.room.member''" | (message) "ty = PStr ''m.room.message''"
    | (other) "ty \<noteq> PStr ''m.room.member''" "ty \<noteq> PStr ''m.room.message''" by blast
  then show ?thesis
  proof cases
    case member
    with Inr have t: "py_getitem event ''type'' = Inr (PStr ''m.room.member'')" by simp
    show ?thesis
      unfolding render_member_branch [OF t] t
      by (auto split: sum.splits dest: py_getitem_error)
  next
    case message
    with Inr have t: "py_getitem event ''type'' = Inr (PStr ''m.room.message'')" by simp
    show ?thesis
      unfolding render_message_branch [OF t] t
      by (auto split: sum.splits dest: py_getitem_error py_subscript_error)
  next
    case other
    then show ?thesis
      using Inr by (simp add: render_other_branch)
  qed
qed

lemma render_errors:
  assumes a: "get_message_content_from_event repr event = Inl e"
  shows "e = UnboundLocalError ''content'' \<or> e = TypeError \<or> (\<exists>k. e = KeyError k)"
proof (cases "py_getitem event ''type''")
  case (Inl e')
  then show ?thesis
    using a py_getitem_error [OF Inl] by (auto simp: render_no_type)
next
  case (Inr ty)
  consider (member) "ty = PStr ''m.room.member''" | (message) "ty = PStr ''m.room.message''"
    | (other) "ty \<noteq> PStr ''m.room.member''" "ty \<noteq> PStr ''m.room.message''" by blast
  then show ?thesis
  proof cases
    case member
    with Inr have t: "py_getitem event ''type'' = Inr (PStr ''m.room.member'')" by simp
    show ?thesis
      using a unfolding render_member_branch [OF t]
      by (auto split: sum.splits if_splits dest: py_getitem_error)
  next
    case message
    with Inr have t: "py_getitem event ''type'' = Inr (PStr ''m.room.message'')" by simp
    show ?thesis
      using a unfolding render_message_branch [OF t]
      by (auto split: sum.splits if_splits dest: py_getitem_error py_subscript_error)
  next
    case other
    then show ?thesis
      using Inr a by (simp add: render_other_branch)
  qed
qed

subsection \<open>The Matrix -> Zulip callback\<close>

lemma matrix_to_zulip_render_error:
  "get_message_content_from_event repr event = Inl e \<Longrightarrow>
   matrix_to_zulip repr client zc mc room event = ([], Inl e)"
  by (simp add: matrix_to_zulip_def)


lemma matrix_to_zulip_issues:
  assumes "get_message_content_from_event repr event = Inr content"
    and "not_from_zulip_bot mc event = Inr True"
  shows "fst (matrix_to_zulip repr client zc mc room event) =
           [Send_message \<lparr> req_sender = email client, req_type = ''stream'',
                            req_to = zc_stream zc, req_subject = zc_subject zc,
                            req_content = content \<rparr>]"
  using assms
  by (simp add: matrix_to_zulip_def Let_def split: sum.splits error.splits)

lemma matrix_to_zulip_trace:
  "fst (matrix_to_zulip repr client zc mc room event) = [] \<or>
   (\<exists>content. fst (matrix_to_zulip repr client zc mc room event) =
           [Send_message \<lparr> req_sender = email client, req_type = ''stream'',
                            req_to = zc_stream zc, req_subject = zc_subject zc,
                            req_content = content \<rparr>])"
  by (simp add: matrix_to_zulip_def Let_def split: sum.splits error.splits bool.splits)


lemma not_from_zulip_bot_other:
  assumes "py_getitem event ''content'' = Inr c"
    and "py_contains ''body'' c = Inr True"
    and "py_getitem event ''sender'' = Inr s"
    and "s \<noteq> PStr (zulip_bot_user mc)"
  shows "not_from_zulip_bot mc event = Inr True"
  using assms by (simp add: not_from_zulip_bot_def)

section \<open>The claims\<close>

subsection \<open>C1: loop prevention\<close>




subsection \<open>C2: a stream message is relayed once\<close>

text \<open>
  Claim C2, as amended. An inbound Zulip message of type \<^verbatim>\<open>stream\<close> whose sender is not
  the configured email, whose \<^verbatim>\<open>display_recipient\<close> is the configured stream and whose
  \<^verbatim>\<open>subject\<close> is the configured subject makes the Zulip -> Matrix callback issue exactly
  one send to the Matrix room, with the text \<^verbatim>\<open>{mention}: {content}\<close> where the mention is
  \<^verbatim>\<open>@**{sender_full_name}**:{site}\<close>. The site is the configured one after
  \<^verbatim>\<open>replace("https://", "")\<close> and \<^verbatim>\<open>replace("http://", "")\<close>: every occurrence of either
  string is deleted, not only a leading scheme. For a host behind one scheme the site is
  the host; for \<^verbatim>\<open>https://\<close> followed by a text that holds one \<^verbatim>\<open>http://\<close>, the site is
  that text without the \<^verbatim>\<open>http://\<close>.
\<close>

theorem stream_message_relayed_once:
  assumes "py_getitem msg ''type'' = Inr (PStr ''stream'')"
    and "py_getitem msg ''sender_email'' = Inr sender_email"
    and "sender_email \<noteq> PStr (zc_email config)"
    and "py_getitem msg ''display_recipient'' = Inr (PStr (zc_stream config))"
    and "py_getitem msg ''subject'' = Inr (PStr (zc_subject config))"
    and "py_getitem msg ''sender_full_name'' = Inr full_name"
    and "py_getitem msg ''content'' = Inr content"
  shows "matrix_sends (fst (zulip_to_matrix repr config room msg)) =
           [(''@**'' @ py_str repr full_name @ ''**:'' @ site_without_http config)
              @ '': '' @ py_str repr content]
       \<and> site_without_http config
           = py_replace ''http://'' '''' (py_replace ''https://'' '''' (zc_site config))
       \<and> (\<forall>h. (zc_site config = ''https://'' @ h \<or> zc_site config = ''http://'' @ h)
              \<and> \<not> py_substring ''https://'' h \<and> \<not> py_substring ''http://'' h
              \<longrightarrow> site_without_http config = h)
       \<and> (\<forall>a b. zc_site config = ''https://'' @ a @ ''http://'' @ b
              \<and> \<not> py_substring ''https://'' (a @ ''http://'' @ b)
              \<and> \<not> py_substring ''http://'' (a @ ''http:/'') \<and> \<not> py_substring ''http://'' b
              \<longrightarrow> site_without_http config = a @ b)"
proof -
  have "matrix_sends (fst (zulip_to_matrix repr config room msg)) =
           [(''@**'' @ py_str repr full_name @ ''**:'' @ site_without_http config)
              @ '': '' @ py_str repr content]"
    unfolding zulip_to_matrix_relayed [OF assms] by (simp add: matrix_sends_def)
  moreover have "\<forall>h. (zc_site config = ''https://'' @ h \<or> zc_site config = ''http://'' @ h)
              \<and> \<not> py_substring ''https://'' h \<and> \<not> py_substring ''http://'' h
              \<longrightarrow> site_without_http config = h"
    using site_without_http_strips [of config] by blast
  moreover have "\<forall>a b. zc_site config = ''https://'' @ a @ ''http://'' @ b
              \<and> \<not> py_substring ''https://'' (a @ ''http://'' @ b)
              \<and> \<not> py_substring ''http://'' (a @ ''http:/'') \<and> \<not> py_substring ''http://'' b
              \<longrightarrow> site_without_http config = a @ b"
    using site_without_http_inner [of config] by blast
  moreover have "site_without_http config
           = py_replace ''http://'' '''' (py_replace ''https://'' '''' (zc_site config))"
    by (simp add: site_without_http_def)
  ultimately show ?thesis by blast
qed

text \<open>
  The hypotheses of C2 at the message \<^verbatim>\<open>hello\<close> that alice posts to \<^verbatim>\<open>mirror\<close> /
  \<^verbatim>\<open>general\<close>, with the site \<^verbatim>\<open>https://host\<close> and with the site
  \<^verbatim>\<open>https://host/http://x\<close>.
\<close>

theorem stream_message_relayed_once_witness:
  "py_getitem example_msg_alice ''type'' = Inr (PStr ''stream'')
   \<and> py_getitem example_msg_alice ''sender_email'' = Inr (PStr ''alice@host'')
   \<and> PStr ''alice@host'' \<noteq> PStr (zc_email example_zulip_config)
   \<and> py_getitem example_msg_alice ''display_recipient'' = Inr (PStr (zc_stream example_zulip_config))
   \<and> py_getitem example_msg_alice ''subject'' = Inr (PStr (zc_subject example_zulip_config))
   \<and> py_getitem example_msg_alice ''sender_full_name'' = Inr (PStr ''alice'')
   \<and> py_getitem example_msg_alice ''content'' = Inr (PStr ''hello'')
   \<and> zc_site example_zulip_config = ''https://'' @ ''host''
   \<and> \<not> py_substring ''https://'' ''host'' \<and> \<not> py_substring ''http://'' ''host''
   \<and> matrix_sends (fst (zulip_to_matrix example_repr example_zulip_config example_room
         example_msg_alice)) = [''@**alice**:host: hello'']
   \<and> PStr ''alice@host'' \<noteq> PStr (zc_email example_zulip_config_nested_site)
   \<and> py_getitem example_msg_alice ''display_recipient''
       = Inr (PStr (zc_stream example_zulip_config_nested_site))
   \<and> py_getitem example_msg_alice ''subject''
       = Inr (PStr (zc_subject example_zulip_config_nested_site))
   \<and> zc_site example_zulip_config_nested_site = ''https://'' @ ''host/'' @ ''http://'' @ ''x''
   \<and> \<not> py_substring ''https://'' (''host/'' @ ''http://'' @ ''x'')
   \<and> \<not> py_substring ''http://'' (''host/'' @ ''http:/'') \<and> \<not> py_substring ''http://'' ''x''
   \<and> matrix_sends (fst (zulip_to_matrix example_repr example_zulip_config_nested_site
         example_room example_msg_alice)) = [''@**alice**:host/x: hello'']"
proof -
  have h1: "py_getitem example_msg_alice ''type'' = Inr (PStr ''stream'')"
    and h2: "py_getitem example_msg_alice ''sender_email'' = Inr (PStr ''alice@host'')"
    and h3: "PStr ''alice@host'' \<noteq> PStr (zc_email example_zulip_config)"
    and h4: "py_getitem example_msg_alice ''display_recipient'' = Inr (PStr (zc_stream example_zulip_config))"
    and h5: "py_getitem example_msg_alice ''subject'' = Inr (PStr (zc_subject example_zulip_config))"
    and h6: "py_getitem example_msg_alice ''sender_full_name'' = Inr (PStr ''alice'')"
    and h7: "py_getitem example_msg_alice ''content'' = Inr (PStr ''hello'')"
    and k3: "PStr ''alice@host'' \<noteq> PStr (zc_email example_zulip_config_nested_site)"
    and k4: "py_getitem example_msg_alice ''display_recipient''
               = Inr (PStr (zc_stream example_zulip_config_nested_site))"
    and k5: "py_getitem example_msg_alice ''subject''
               = Inr (PStr (zc_subject example_zulip_config_nested_site))"
    by (simp_all add: example_defs py_getitem_def)
  have s: "zc_site example_zulip_config = ''https://'' @ ''host''"
    and n1: "\<not> py_substring ''https://'' ''host''" and n2: "\<not> py_substring ''http://'' ''host''"
    and s': "zc_site example_zulip_config_nested_site = ''https://'' @ ''host/'' @ ''http://'' @ ''x''"
    and m1: "\<not> py_substring ''https://'' (''host/'' @ ''http://'' @ ''x'')"
    and m2: "\<not> py_substring ''http://'' (''host/'' @ ''http:/'')"
    and m3: "\<not> py_substring ''http://'' ''x''"
    by (simp_all add: example_defs)
  note t = stream_message_relayed_once [OF h1 h2 h3 h4 h5 h6 h7, of example_repr example_room]
  note u = stream_message_relayed_once [OF h1 h2 k3 k4 k5 h6 h7, of example_repr example_room]
  from t have "site_without_http example_zulip_config = ''host''"
    using s n1 n2 by blast
  with t have c1: "matrix_sends (fst (zulip_to_matrix example_repr example_zulip_config example_room
         example_msg_alice)) = [''@**alice**:host: hello'']"
    by (simp add: py_str_def)
  from u have "site_without_http example_zulip_config_nested_site = ''host/'' @ ''x''"
    using s' m1 m2 m3 by blast
  with u have c2: "matrix_sends (fst (zulip_to_matrix example_repr example_zulip_config_nested_site
         example_room example_msg_alice)) = [''@**alice**:host/x: hello'']"
    by (simp add: py_str_def)
  show ?thesis using h1 h2 h3 h4 h5 h6 h7 k3 k4 k5 s n1 n2 s' m1 m2 m3 c1 c2 by blast
qed

text \<open>
  C2 as stated fails twice. It leaves out the type of the message: a message of type
  \<^verbatim>\<open>private\<close> that meets the three conditions of the claim is not relayed. And the site
  is not the configured site without its scheme when a scheme occurs inside it: with the
  site \<^verbatim>\<open>https://host/http://x\<close> the mention ends in \<^verbatim>\<open>host/x\<close>, not in
  \<^verbatim>\<open>host/http://x\<close>.
\<close>

theorem stream_relay_counterexample:
  "py_getitem example_msg_private ''sender_email'' = Inr (PStr ''alice@host'')
   \<and> PStr ''alice@host'' \<noteq> PStr (zc_email example_zulip_config)
   \<and> py_getitem example_msg_private ''display_recipient'' = Inr (PStr (zc_stream example_zulip_config))
   \<and> py_getitem example_msg_private ''subject'' = Inr (PStr (zc_subject example_zulip_config))
   \<and> py_getitem example_msg_private ''sender_full_name'' = Inr (PStr ''alice'')
   \<and> py_getitem example_msg_private ''content'' = Inr (PStr ''hello'')
   \<and> matrix_sends (fst (zulip_to_matrix example_repr example_zulip_config example_room
         example_msg_private)) = []
   \<and> py_getitem example_msg_alice ''sender_email'' = Inr (PStr ''alice@host'')
   \<and> PStr ''alice@host'' \<noteq> PStr (zc_email example_zulip_config_nested_site)
   \<and> py_getitem example_msg_alice ''display_recipient''
       = Inr (PStr (zc_stream example_zulip_config_nested_site))
   \<and> py_getitem example_msg_alice ''subject''
       = Inr (PStr (zc_subject example_zulip_config_nested_site))
   \<and> py_getitem example_msg_alice ''sender_full_name'' = Inr (PStr ''alice'')
   \<and> py_getitem example_msg_alice ''content'' = Inr (PStr ''hello'')
   \<and> zc_site example_zulip_config_nested_site = ''https://'' @ ''host/http://x''
   \<and> matrix_sends (fst (zulip_to_matrix example_repr example_zulip_config_nested_site
         example_room example_msg_alice)) = [''@**alice**:host/x: hello'']
   \<and> matrix_sends (fst (zulip_to_matrix example_repr example_zulip_config_nested_site
         example_room example_msg_alice)) \<noteq> [''@**alice**:'' @ ''host/http://x'' @ '': hello'']"
  by (simp add: example_defs py_getitem_def zulip_to_matrix_def matrix_sends_def Let_def
      zulip_to_matrix_username_def site_without_http_def py_str_def)

subsection \<open>C3: filtered Zulip messages\<close>

text \<open>
  Claim C3. An inbound Zulip message whose sender is the configured email of the bot, or
  whose \<^verbatim>\<open>display_recipient\<close> is not the configured stream, or whose \<^verbatim>\<open>subject\<close> is not
  the configured subject, makes the Zulip -> Matrix callback issue no send to Matrix.
\<close>

theorem filtered_message_not_relayed:
  assumes "py_getitem msg ''sender_email'' = Inr (PStr (zc_email config))
         \<or> py_getitem msg ''display_recipient'' \<noteq> Inr (PStr (zc_stream config))
         \<or> py_getitem msg ''subject'' \<noteq> Inr (PStr (zc_subject config))"
  shows "matrix_sends (fst (zulip_to_matrix repr config room msg)) = []"
proof -
  have "fst (zulip_to_matrix repr config room msg) = []"
    using assms by (intro zulip_to_matrix_filtered) blast
  then show ?thesis by (simp add: matrix_sends_def)
qed

text \<open>
  The hypothesis of C3 at a message that the bot itself posted to the stream, at a message
  on another stream and at a message on another topic.
\<close>

theorem filtered_message_not_relayed_witness:
  "py_getitem example_msg_from_bot ''sender_email'' = Inr (PStr (zc_email example_zulip_config))
   \<and> matrix_sends (fst (zulip_to_matrix example_repr example_zulip_config example_room
         example_msg_from_bot)) = []
   \<and> py_getitem example_msg_other_stream ''display_recipient''
         \<noteq> Inr (PStr (zc_stream example_zulip_config))
   \<and> matrix_sends (fst (zulip_to_matrix example_repr example_zulip_config example_room
         example_msg_other_stream)) = []
   \<and> py_getitem example_msg_other_subject ''subject''
         \<noteq> Inr (PStr (zc_subject example_zulip_config))
   \<and> matrix_sends (fst (zulip_to_matrix example_repr example_zulip_config example_room
         example_msg_other_subject)) = []"
proof -
  have h1: "py_getitem example_msg_from_bot ''sender_email''
              = Inr (PStr (zc_email example_zulip_config))"
    and h2: "py_getitem example_msg_other_stream ''display_recipient''
              \<noteq> Inr (PStr (zc_stream example_zulip_config))"
    and h3: "py_getitem example_msg_other_subject ''subject''
              \<noteq> Inr (PStr (zc_subject example_zulip_config))"
    by (simp_all add: example_defs py_getitem_def)
  show ?thesis
    using h1 h2 h3
      filtered_message_not_relayed [where msg = example_msg_from_bot
        and config = example_zulip_config and repr = example_repr and room = example_room]
      filtered_message_not_relayed [where msg = example_msg_other_stream
        and config = example_zulip_config and repr = example_repr and room = example_room]
      filtered_message_not_relayed [where msg = example_msg_other_subject
        and config = example_zulip_config and repr = example_repr and room = example_room]
    by simp
qed

subsection \<open>C4: text and emote events are forwarded once\<close>

text \<open>
  Claim C4, as amended. An inbound Matrix event of type \<^verbatim>\<open>m.room.message\<close> with msgtype
  \<^verbatim>\<open>m.text\<close> or \<^verbatim>\<open>m.emote\<close> that carries a \<^verbatim>\<open>'body'\<close>, not authored by the bridge's own bot
  identity (the account of the configured username on the homeserver of the bridge) and
  not sent by the account of that username on \<^verbatim>\<open>matrix.org\<close>, makes the Matrix -> Zulip
  callback issue exactly one send to Zulip: a stream message to the configured stream and
  subject with the content \<^verbatim>\<open>{sender}: {body}\<close>.
\<close>

theorem text_event_forwarded_once:
  assumes "py_getitem event ''type'' = Inr (PStr ''m.room.message'')"
    and "py_getitem event ''content'' = Inr c"
    and "py_subscript c ''msgtype'' = Inr mt"
    and "mt = PStr ''m.text'' \<or> mt = PStr ''m.emote''"
    and "py_getitem event ''sender'' = Inr s"
    and "py_subscript c ''body'' = Inr b"
    and "s \<noteq> PStr (matrix_user_id (mc_username mc) homeserver)"
    and "s \<noteq> PStr (matrix_user_id (mc_username mc) ''matrix.org'')"
  shows "zulip_sends (fst (matrix_to_zulip repr client zc mc room event)) =
           [\<lparr> req_sender = email client, req_type = ''stream'', req_to = zc_stream zc,
              req_subject = zc_subject zc,
              req_content = PStr (py_str repr s @ '': '' @ py_str repr b) \<rparr>]"
proof -
  have r: "get_message_content_from_event repr event =
             Inr (PStr (py_str repr s @ '': '' @ py_str repr b))"
    using assms(1-6) by (rule render_message)
  have m: "s \<noteq> PStr (zulip_bot_user mc)"
    using assms(8) by (simp add: matrix_user_id_def zulip_bot_user_def)
  have "py_contains ''body'' c = Inr True"
    using assms(6) by (rule py_subscript_contains)
  then have f: "not_from_zulip_bot mc event = Inr True"
    using assms(2,5) m by (intro not_from_zulip_bot_other)
  show ?thesis
    unfolding matrix_to_zulip_issues [OF r f] by (simp add: zulip_sends_def)
qed

text \<open>
  The hypotheses of C4 at the message \<^verbatim>\<open>hi\<close> of bob, for the bot on \<^verbatim>\<open>example.org\<close>.
\<close>

theorem text_event_forwarded_once_witness:
  "py_getitem example_event_bob ''type'' = Inr (PStr ''m.room.message'')
   \<and> py_getitem example_event_bob ''content''
       = Inr (PDict [(''msgtype'', PStr ''m.text''), (''body'', PStr ''hi'')])
   \<and> py_subscript (PDict [(''msgtype'', PStr ''m.text''), (''body'', PStr ''hi'')]) ''msgtype''
       = Inr (PStr ''m.text'')
   \<and> py_getitem example_event_bob ''sender'' = Inr (PStr ''bob'')
   \<and> py_subscript (PDict [(''msgtype'', PStr ''m.text''), (''body'', PStr ''hi'')]) ''body''
       = Inr (PStr ''hi'')
   \<and> PStr ''bob'' \<noteq> PStr (matrix_user_id (mc_username example_matrix_config) ''example.org'')
   \<and> PStr ''bob'' \<noteq> PStr (matrix_user_id (mc_username example_matrix_config) ''matrix.org'')
   \<and> zulip_sends (fst (matrix_to_zulip example_repr example_client example_zulip_config
         example_matrix_config () example_event_bob))
       = [\<lparr> req_sender = ''bridge-bot@host'', req_type = ''stream'', req_to = ''mirror'',
            req_subject = ''general'', req_content = PStr ''bob: hi'' \<rparr>]"
proof -
  have h1: "py_getitem example_event_bob ''type'' = Inr (PStr ''m.room.message'')"
    and h2: "py_getitem example_event_bob ''content''
       = Inr (PDict [(''msgtype'', PStr ''m.text''), (''body'', PStr ''hi'')])"
    and h3: "py_subscript (PDict [(''msgtype'', PStr ''m.text''), (''body'', PStr ''hi'')]) ''msgtype''
       = Inr (PStr ''m.text'')"
    and h5: "py_getitem example_event_bob ''sender'' = Inr (PStr ''bob'')"
    and h6: "py_subscript (PDict [(''msgtype'', PStr ''m.text''), (''body'', PStr ''hi'')]) ''body''
       = Inr (PStr ''hi'')"
    and h7: "PStr ''bob'' \<noteq> PStr (matrix_user_id (mc_username example_matrix_config) ''example.org'')"
    and h8: "PStr ''bob'' \<noteq> PStr (matrix_user_id (mc_username example_matrix_config) ''matrix.org'')"
    by (simp_all add: example_defs py_getitem_def py_subscript_def matrix_user_id_def)
  have h4: "PStr ''m.text'' = PStr ''m.text'' \<or> PStr ''m.text'' = PStr ''m.emote''"
    by simp
  show ?thesis
    using h1 h2 h3 h5 h6 h7 h8
      text_event_forwarded_once [OF h1 h2 h3 h4 h5 h6 h7 h8, where repr = example_repr
        and client = example_client and zc = example_zulip_config and room = "()"]
    by (simp add: py_str_def example_client_def example_zulip_config_def)
qed

text \<open>
  C4 as stated fails twice, for the bot on \<^verbatim>\<open>example.org\<close>. A text event of bob without a
  \<^verbatim>\<open>'body'\<close> raises \<^verbatim>\<open>KeyError\<close> in the rendering and nothing is sent. And the text event
  of another account, \<^verbatim>\<open>@bot:matrix.org\<close>, is taken for the bot by the string that line 31
  builds, and is dropped.
\<close>

theorem text_event_not_forwarded_counterexample:
  "py_getitem example_event_no_body ''type'' = Inr (PStr ''m.room.message'')
   \<and> py_getitem example_event_no_body ''content'' = Inr (PDict [(''msgtype'', PStr ''m.text'')])
   \<and> py_subscript (PDict [(''msgtype'', PStr ''m.text'')]) ''msgtype'' = Inr (PStr ''m.text'')
   \<and> py_getitem example_event_no_body ''sender'' = Inr (PStr ''bob'')
   \<and> PStr ''bob'' \<noteq> PStr (matrix_user_id (mc_username example_matrix_config) ''example.org'')
   \<and> matrix_to_zulip example_repr example_client example_zulip_config example_matrix_config ()
        example_event_no_body = ([], Inl (KeyError ''body''))
   \<and> py_getitem example_event_namesake ''type'' = Inr (PStr ''m.room.message'')
   \<and> py_getitem example_event_namesake ''content''
       = Inr (PDict [(''msgtype'', PStr ''m.text''), (''body'', PStr ''hi'')])
   \<and> py_getitem example_event_namesake ''sender'' = Inr (PStr ''@bot:matrix.org'')
   \<and> PStr ''@bot:matrix.org''
       \<noteq> PStr (matrix_user_id (mc_username example_matrix_config) ''example.org'')
   \<and> matrix_to_zulip example_repr example_client example_zulip_config example_matrix_config ()
        example_event_namesake = ([], Inr ())"
  by (simp add: example_defs py_getitem_def py_subscript_def zulip_bot_user_def matrix_user_id_def
      matrix_to_zulip_def get_message_content_from_event_def not_from_zulip_bot_def
      py_contains_def py_str_def Let_def)

subsection \<open>C5: membership events\<close>

text \<open>
  Claim C5. A Matrix event of type \<^verbatim>\<open>m.room.member\<close> is rendered as \<^verbatim>\<open>{sender} joined\<close>
  when its membership is \<^verbatim>\<open>join\<close> and as \<^verbatim>\<open>{sender} quit\<close> when it is \<^verbatim>\<open>leave\<close>. It
  is never sent back to the Matrix room: the Matrix -> Zulip callback issues no
  \<^verbatim>\<open>send_text\<close>, and the message it sends to Zulip carries the email of the bot as its
  sender, so that the Zulip -> Matrix callback of a bridge whose client uses the
  configured email drops it.
\<close>

theorem membership_event_rendering:
  assumes "py_getitem event ''type'' = Inr (PStr ''m.room.member'')"
    and "py_getitem event ''sender'' = Inr s"
  shows "(py_getitem event ''membership'' = Inr (PStr ''join'') \<longrightarrow>
            get_message_content_from_event repr event = Inr (PStr (py_str repr s @ '' joined'')))
       \<and> (py_getitem event ''membership'' = Inr (PStr ''leave'') \<longrightarrow>
            get_message_content_from_event repr event = Inr (PStr (py_str repr s @ '' quit'')))
       \<and> matrix_sends (fst (matrix_to_zulip repr client zc mc room event)) = []
       \<and> (\<forall>r \<in> set (zulip_sends (fst (matrix_to_zulip repr client zc mc room event))).
            \<forall>msg. email client = zc_email zc \<longrightarrow>
                  py_getitem msg ''sender_email'' = Inr (PStr (req_sender r)) \<longrightarrow>
                  matrix_sends (fst (zulip_to_matrix repr zc mroom msg)) = [])"
proof -
  note tr = matrix_to_zulip_trace [of repr client zc mc room event]
  have a: "matrix_sends (fst (matrix_to_zulip repr client zc mc room event)) = []"
    using tr by (auto simp: matrix_sends_def)
  have b: "\<forall>r \<in> set (zulip_sends (fst (matrix_to_zulip repr client zc mc room event))).
             req_sender r = email client"
    using tr by (auto simp: zulip_sends_def)
  have c: "matrix_sends (fst (zulip_to_matrix repr zc mroom msg)) = []"
    if "py_getitem msg ''sender_email'' = Inr (PStr (zc_email zc))" for msg
    using that zulip_to_matrix_filtered [of msg zc repr mroom]
    by (simp add: matrix_sends_def)
  show ?thesis
    using a b c render_member [OF assms, of repr] by simp
qed

text \<open>
  The hypotheses of C5 at bob joining and bob leaving the room.
\<close>

theorem membership_event_rendering_witness:
  "py_getitem example_event_join ''type'' = Inr (PStr ''m.room.member'')
   \<and> py_getitem example_event_join ''sender'' = Inr (PStr ''bob'')
   \<and> py_getitem example_event_join ''membership'' = Inr (PStr ''join'')
   \<and> get_message_content_from_event example_repr example_event_join = Inr (PStr ''bob joined'')
   \<and> py_getitem example_event_leave ''type'' = Inr (PStr ''m.room.member'')
   \<and> py_getitem example_event_leave ''sender'' = Inr (PStr ''bob'')
   \<and> py_getitem example_event_leave ''membership'' = Inr (PStr ''leave'')
   \<and> get_message_content_from_event example_repr example_event_leave = Inr (PStr ''bob quit'')
   \<and> matrix_sends (fst (matrix_to_zulip example_repr example_client example_zulip_config
         example_matrix_config () example_event_join)) = []
   \<and> zulip_sends (fst (matrix_to_zulip example_repr example_client example_zulip_config
         example_matrix_config () example_event_join))
       = [\<lparr> req_sender = ''bridge-bot@host'', req_type = ''stream'', req_to = ''mirror'',
            req_subject = ''general'', req_content = PStr ''bob joined'' \<rparr>]
   \<and> email example_client = zc_email example_zulip_config
   \<and> py_getitem example_msg_from_bot ''sender_email'' = Inr (PStr ''bridge-bot@host'')
   \<and> matrix_sends (fst (zulip_to_matrix example_repr example_zulip_config example_room
         example_msg_from_bot)) = []"
proof -
  have j1: "py_getitem example_event_join ''type'' = Inr (PStr ''m.room.member'')"
    and j2: "py_getitem example_event_join ''sender'' = Inr (PStr ''bob'')"
    and j3: "py_getitem example_event_join ''membership'' = Inr (PStr ''join'')"
    and l1: "py_getitem example_event_leave ''type'' = Inr (PStr ''m.room.member'')"
    and l2: "py_getitem example_event_leave ''sender'' = Inr (PStr ''bob'')"
    and l3: "py_getitem example_event_leave ''membership'' = Inr (PStr ''leave'')"
    and e: "email example_client = zc_email example_zulip_config"
    and m: "py_getitem example_msg_from_bot ''sender_email'' = Inr (PStr ''bridge-bot@host'')"
    by (simp_all add: example_defs py_getitem_def)
  have z: "zulip_sends (fst (matrix_to_zulip example_repr example_client example_zulip_config
         example_matrix_config () example_event_join))
       = [\<lparr> req_sender = ''bridge-bot@host'', req_type = ''stream'', req_to = ''mirror'',
            req_subject = ''general'', req_content = PStr ''bob joined'' \<rparr>]"
    by (simp add: example_defs py_getitem_def zulip_bot_user_def matrix_to_zulip_def
      get_message_content_from_event_def not_from_zulip_bot_def py_contains_def py_str_def
      zulip_sends_def Let_def)
  note tj = membership_event_rendering [OF j1 j2, of example_repr example_client
      example_zulip_config example_matrix_config "()" example_room]
  note tl = membership_event_rendering [OF l1 l2, of example_repr example_client
      example_zulip_config example_matrix_config "()" example_room]
  have rj: "get_message_content_from_event example_repr example_event_join = Inr (PStr ''bob joined'')"
    using tj j3 by (simp add: py_str_def)
  have rl: "get_message_content_from_event example_repr example_event_leave = Inr (PStr ''bob quit'')"
    using tl l3 by (simp add: py_str_def)
  have ms: "matrix_sends (fst (matrix_to_zulip example_repr example_client example_zulip_config
         example_matrix_config () example_event_join)) = []"
    using tj by blast
  have bk: "matrix_sends (fst (zulip_to_matrix example_repr example_zulip_config example_room
         example_msg_from_bot)) = []"
    using tj z e m by simp
  show ?thesis
    using j1 j2 j3 l1 l2 l3 e m z rj rl ms bk by blast
qed

subsection \<open>C6: failure normalization\<close>

text \<open>
  Claim C6. When the Matrix -> Zulip callback sends a message to Zulip and the send raises
  \<^verbatim>\<open>MatrixRequestError\<close>, or returns an acknowledgement whose result is not
  \<^verbatim>\<open>success\<close>, the callback raises the generic \<^verbatim>\<open>Exception\<close> in both cases; the message
  was sent once and is not sent again.
\<close>

theorem send_failure_normalized:
  assumes "get_message_content_from_event repr event = Inr content"
    and "not_from_zulip_bot mc event = Inr True"
    and "req = \<lparr> req_sender = email client, req_type = ''stream'', req_to = zc_stream zc,
                  req_subject = zc_subject zc, req_content = content \<rparr>"
  shows "(send_message client req = Inl (MatrixRequestError e) \<longrightarrow>
            matrix_to_zulip repr client zc mc room event
              = ([Send_message req], Inl (Exception (Of_MatrixRequestError e))))
       \<and> (send_message client req = Inr result \<and> ack_result result \<noteq> ''success'' \<longrightarrow>
            matrix_to_zulip repr client zc mc room event
              = ([Send_message req], Inl (Exception (Of_msg (ack_msg result)))))"
  using assms by (simp add: matrix_to_zulip_def Let_def)

text \<open>
  The hypotheses of C6 at the message of bob, with a client that is forbidden and with a
  client whose API key is invalid.
\<close>

theorem send_failure_normalized_witness:
  "get_message_content_from_event example_repr example_event_bob = Inr (PStr ''bob: hi'')
   \<and> not_from_zulip_bot example_matrix_config example_event_bob = Inr True
   \<and> send_message example_client_forbidden
        \<lparr> req_sender = ''bridge-bot@host'', req_type = ''stream'', req_to = ''mirror'',
          req_subject = ''general'', req_content = PStr ''bob: hi'' \<rparr>
       = Inl (MatrixRequestError ''403'')
   \<and> matrix_to_zulip example_repr example_client_forbidden example_zulip_config
        example_matrix_config () example_event_bob
       = ([Send_message \<lparr> req_sender = ''bridge-bot@host'', req_type = ''stream'',
             req_to = ''mirror'', req_subject = ''general'', req_content = PStr ''bob: hi'' \<rparr>],
          Inl (Exception (Of_MatrixRequestError ''403'')))
   \<and> send_message example_client_invalid_key
        \<lparr> req_sender = ''bridge-bot@host'', req_type = ''stream'', req_to = ''mirror'',
          req_subject = ''general'', req_content = PStr ''bob: hi'' \<rparr>
       = Inr \<lparr> ack_result = ''error'', ack_msg = ''Invalid API key'' \<rparr>
   \<and> ack_result \<lparr> ack_result = ''error'', ack_msg = ''Invalid API key'' \<rparr> \<noteq> ''success''
   \<and> matrix_to_zulip example_repr example_client_invalid_key example_zulip_config
        example_matrix_config () example_event_bob
       = ([Send_message \<lparr> req_sender = ''bridge-bot@host'', req_type = ''stream'',
             req_to = ''mirror'', req_subject = ''general'', req_content = PStr ''bob: hi'' \<rparr>],
          Inl (Exception (Of_msg ''Invalid API key'')))"
proof -
  have r: "get_message_content_from_event example_repr example_event_bob = Inr (PStr ''bob: hi'')"
    by (simp add: example_defs get_message_content_from_event_def py_getitem_def py_subscript_def
        py_str_def)
  have f: "not_from_zulip_bot example_matrix_config example_event_bob = Inr True"
    by (simp add: example_defs not_from_zulip_bot_def py_getitem_def py_contains_def
        zulip_bot_user_def)
  have q1: "\<lparr> req_sender = ''bridge-bot@host'', req_type = ''stream'', req_to = ''mirror'',
          req_subject = ''general'', req_content = PStr ''bob: hi'' \<rparr>
       = \<lparr> req_sender = email example_client_forbidden, req_type = ''stream'',
           req_to = zc_stream example_zulip_config, req_subject = zc_subject example_zulip_config,
           req_content = PStr ''bob: hi'' \<rparr>"
    by (simp add: example_defs)
  have q2: "\<lparr> req_sender = ''bridge-bot@host'', req_type = ''stream'', req_to = ''mirror'',
          req_subject = ''general'', req_content = PStr ''bob: hi'' \<rparr>
       = \<lparr> req_sender = email example_client_invalid_key, req_type = ''stream'',
           req_to = zc_stream example_zulip_config, req_subject = zc_subject example_zulip_config,
           req_content = PStr ''bob: hi'' \<rparr>"
    by (simp add: example_defs)
  have s1: "send_message example_client_forbidden
        \<lparr> req_sender = ''bridge-bot@host'', req_type = ''stream'', req_to = ''mirror'',
          req_subject = ''general'', req_content = PStr ''bob: hi'' \<rparr>
       = Inl (MatrixRequestError ''403'')"
    by (simp add: example_defs)
  have s2: "send_message example_client_invalid_key
        \<lparr> req_sender = ''bridge-bot@host'', req_type = ''stream'', req_to = ''mirror'',
          req_subject = ''general'', req_content = PStr ''bob: hi'' \<rparr>
       = Inr \<lparr> ack_result = ''error'', ack_msg = ''Invalid API key'' \<rparr>"
    by (simp add: example_defs)
  have n: "ack_result \<lparr> ack_result = ''error'', ack_msg = ''Invalid API key'' \<rparr> \<noteq> ''success''"
    by simp
  note t1 = send_failure_normalized [OF r f q1, where e = "''403''" and room = "()"]
  note t2 = send_failure_normalized [OF r f q2, where room = "()"
      and result = "\<lparr> ack_result = ''error'', ack_msg = ''Invalid API key'' \<rparr>"]
  have c1: "matrix_to_zulip example_repr example_client_forbidden example_zulip_config
        example_matrix_config () example_event_bob
       = ([Send_message \<lparr> req_sender = ''bridge-bot@host'', req_type = ''stream'',
             req_to = ''mirror'', req_subject = ''general'', req_content = PStr ''bob: hi'' \<rparr>],
          Inl (Exception (Of_MatrixRequestError ''403'')))"
    using t1 s1 by blast
  have c2: "matrix_to_zulip example_repr example_client_invalid_key example_zulip_config
        example_matrix_config () example_event_bob
       = ([Send_message \<lparr> req_sender = ''bridge-bot@host'', req_type = ''stream'',
             req_to = ''mirror'', req_subject = ''general'', req_content = PStr ''bob: hi'' \<rparr>],
          Inl (Exception (Of_msg ''Invalid API key'')))"
    using t2 s2 n by simp
  show ?thesis
    using r f s1 s2 n c1 c2 by blast
qed

subsection \<open>C8: the marker of the bot is fixed to matrix.org\<close>

text \<open>
  Claim C8. The marker of the bot is \<^verbatim>\<open>'@%s:matrix.org' % username\<close>, whatever Matrix host is
  configured. A message event of the bot on another homeserver, carrying a \<^verbatim>\<open>'body'\<close>,
  does not meet the sender check and is forwarded to Zulip.
\<close>

theorem bot_marker_ignores_host:
  "zulip_bot_user mc = ''@'' @ mc_username mc @ '':matrix.org''
   \<and> zulip_bot_user (mc\<lparr> mc_host := host \<rparr>) = zulip_bot_user mc
   \<and> (homeserver \<noteq> ''matrix.org'' \<longrightarrow>
        not_from_zulip_bot mc
          [(''type'', PStr ''m.room.message''),
           (''sender'', PStr (''@'' @ mc_username mc @ '':'' @ homeserver)),
           (''content'', PDict [(''msgtype'', PStr ''m.text''), (''body'', PStr body)])] = Inr True
      \<and> zulip_sends (fst (matrix_to_zulip repr client zc mc room
          [(''type'', PStr ''m.room.message''),
           (''sender'', PStr (''@'' @ mc_username mc @ '':'' @ homeserver)),
           (''content'', PDict [(''msgtype'', PStr ''m.text''), (''body'', PStr body)])]))
        = [\<lparr> req_sender = email client, req_type = ''stream'', req_to = zc_stream zc,
             req_subject = zc_subject zc,
             req_content = PStr ((''@'' @ mc_username mc @ '':'' @ homeserver) @ '': '' @ body) \<rparr>])"
proof -
  let ?ev = "[(''type'', PStr ''m.room.message''),
           (''sender'', PStr (''@'' @ mc_username mc @ '':'' @ homeserver)),
           (''content'', PDict [(''msgtype'', PStr ''m.text''), (''body'', PStr body)])]"
  have r: "get_message_content_from_event repr ?ev
             = Inr (PStr ((''@'' @ mc_username mc @ '':'' @ homeserver) @ '': '' @ body))"
    by (simp add: get_message_content_from_event_def py_getitem_def py_subscript_def py_str_def)
  have f: "not_from_zulip_bot mc ?ev = Inr True" if "homeserver \<noteq> ''matrix.org''"
    using that
    by (simp add: not_from_zulip_bot_def py_getitem_def py_contains_def zulip_bot_user_def)
  have "zulip_sends (fst (matrix_to_zulip repr client zc mc room ?ev))
        = [\<lparr> req_sender = email client, req_type = ''stream'', req_to = zc_stream zc,
             req_subject = zc_subject zc,
             req_content = PStr ((''@'' @ mc_username mc @ '':'' @ homeserver) @ '': '' @ body) \<rparr>]"
    if "homeserver \<noteq> ''matrix.org''"
    unfolding matrix_to_zulip_issues [OF r f [OF that]] by (simp add: zulip_sends_def)
  then show ?thesis
    using f by (simp add: zulip_bot_user_def)
qed

text \<open>
  The hypothesis of C8 at the bot on the homeserver \<^verbatim>\<open>example.org\<close>.
\<close>

theorem bot_marker_ignores_host_witness:
  "''example.org'' \<noteq> ''matrix.org''
   \<and> zulip_bot_user example_matrix_config = ''@bot:matrix.org''
   \<and> not_from_zulip_bot example_matrix_config
        [(''type'', PStr ''m.room.message''), (''sender'', PStr ''@bot:example.org''),
         (''content'', PDict [(''msgtype'', PStr ''m.text''), (''body'', PStr ''@**alice**:host: hello'')])]
       = Inr True
   \<and> zulip_sends (fst (matrix_to_zulip example_repr example_client example_zulip_config
        example_matrix_config ()
        [(''type'', PStr ''m.room.message''), (''sender'', PStr ''@bot:example.org''),
         (''content'', PDict [(''msgtype'', PStr ''m.text''), (''body'', PStr ''@**alice**:host: hello'')])]))
       = [\<lparr> req_sender = ''bridge-bot@host'', req_type = ''stream'', req_to = ''mirror'',
            req_subject = ''general'',
            req_content = PStr ''@bot:example.org: @**alice**:host: hello'' \<rparr>]"
  using bot_marker_ignores_host [where mc = example_matrix_config
      and homeserver = "''example.org''" and body = "''@**alice**:host: hello''"
      and repr = example_repr and client = example_client and zc = example_zulip_config
      and room = "()"]
  by (simp add: example_defs)

subsection \<open>C9: content rendering is partial\<close>

text \<open>
  Claim C9, as amended. \<^verbatim>\<open>get_message_content_from_event\<close> raises the error of the
  unassigned local \<^verbatim>\<open>content\<close> exactly on the events of type \<^verbatim>\<open>m.room.member\<close> whose
  membership is present and is neither \<^verbatim>\<open>join\<close> nor \<^verbatim>\<open>leave\<close>, and on the events of type
  \<^verbatim>\<open>m.room.message\<close> whose content has a msgtype that is neither \<^verbatim>\<open>m.text\<close> nor
  \<^verbatim>\<open>m.emote\<close>. On every other event it returns a value or raises \<^verbatim>\<open>KeyError\<close> or
  \<^verbatim>\<open>TypeError\<close> for a field that it reads and that is missing or is not a dict. It returns
  a string on a join or leave event with a sender, on a text or emote event with a sender
  and a body, and on an event of any other type that is a string.
\<close>

theorem rendering_partial:
  "(get_message_content_from_event repr event = Inl (UnboundLocalError ''content'') \<longleftrightarrow>
      (py_getitem event ''type'' = Inr (PStr ''m.room.member'') \<and>
        (\<exists>m. py_getitem event ''membership'' = Inr m \<and> m \<noteq> PStr ''join'' \<and> m \<noteq> PStr ''leave''))
    \<or> (py_getitem event ''type'' = Inr (PStr ''m.room.message'') \<and>
        (\<exists>c mt. py_getitem event ''content'' = Inr c \<and> py_subscript c ''msgtype'' = Inr mt \<and>
           mt \<noteq> PStr ''m.text'' \<and> mt \<noteq> PStr ''m.emote'')))
   \<and> ((\<exists>v. get_message_content_from_event repr event = Inr v)
      \<or> get_message_content_from_event repr event = Inl (UnboundLocalError ''content'')
      \<or> get_message_content_from_event repr event = Inl TypeError
      \<or> (\<exists>k. get_message_content_from_event repr event = Inl (KeyError k)))
   \<and> (py_getitem event ''type'' = Inr (PStr ''m.room.member'') \<and>
        (py_getitem event ''membership'' = Inr (PStr ''join'') \<or>
         py_getitem event ''membership'' = Inr (PStr ''leave'')) \<and>
        (\<exists>s. py_getitem event ''sender'' = Inr s)
      \<longrightarrow> (\<exists>str. get_message_content_from_event repr event = Inr (PStr str)))
   \<and> (py_getitem event ''type'' = Inr (PStr ''m.room.message'') \<and>
        (\<exists>c s b. py_getitem event ''content'' = Inr c \<and>
           (py_subscript c ''msgtype'' = Inr (PStr ''m.text'') \<or>
            py_subscript c ''msgtype'' = Inr (PStr ''m.emote'')) \<and>
           py_getitem event ''sender'' = Inr s \<and> py_subscript c ''body'' = Inr b)
      \<longrightarrow> (\<exists>str. get_message_content_from_event repr event = Inr (PStr str)))
   \<and> (\<forall>t. py_getitem event ''type'' = Inr (PStr t) \<and> t \<noteq> ''m.room.member'' \<and>
          t \<noteq> ''m.room.message''
      \<longrightarrow> get_message_content_from_event repr event = Inr (PStr t))"
proof -
  have 1: "get_message_content_from_event repr event = Inl (UnboundLocalError ''content'') \<longleftrightarrow>
      (py_getitem event ''type'' = Inr (PStr ''m.room.member'') \<and>
        (\<exists>m. py_getitem event ''membership'' = Inr m \<and> m \<noteq> PStr ''join'' \<and> m \<noteq> PStr ''leave''))
    \<or> (py_getitem event ''type'' = Inr (PStr ''m.room.message'') \<and>
        (\<exists>c mt. py_getitem event ''content'' = Inr c \<and> py_subscript c ''msgtype'' = Inr mt \<and>
           mt \<noteq> PStr ''m.text'' \<and> mt \<noteq> PStr ''m.emote''))"
    using render_unbound_iff [of repr event "''content''"] by simp
  have 2: "(\<exists>v. get_message_content_from_event repr event = Inr v)
      \<or> get_message_content_from_event repr event = Inl (UnboundLocalError ''content'')
      \<or> get_message_content_from_event repr event = Inl TypeError
      \<or> (\<exists>k. get_message_content_from_event repr event = Inl (KeyError k))"
  proof (cases "get_message_content_from_event repr event")
    case (Inl e)
    then show ?thesis using render_errors [OF Inl] by auto
  next
    case (Inr v)
    then show ?thesis by simp
  qed
  have 3: "\<exists>str. get_message_content_from_event repr event = Inr (PStr str)"
    if "py_getitem event ''type'' = Inr (PStr ''m.room.member'')"
      and "py_getitem event ''membership'' = Inr (PStr ''join'') \<or>
           py_getitem event ''membership'' = Inr (PStr ''leave'')"
      and "\<exists>s. py_getitem event ''sender'' = Inr s"
    using that render_member [of event _ repr] by blast
  have 4: "\<exists>str. get_message_content_from_event repr event = Inr (PStr str)"
    if "py_getitem event ''type'' = Inr (PStr ''m.room.message'')"
      and "\<exists>c s b. py_getitem event ''content'' = Inr c \<and>
           (py_subscript c ''msgtype'' = Inr (PStr ''m.text'') \<or>
            py_subscript c ''msgtype'' = Inr (PStr ''m.emote'')) \<and>
           py_getitem event ''sender'' = Inr s \<and> py_subscript c ''body'' = Inr b"
  proof -
    from that(2) obtain c s b mt where "py_getitem event ''content'' = Inr c"
      "py_subscript c ''msgtype'' = Inr mt" "mt = PStr ''m.text'' \<or> mt = PStr ''m.emote''"
      "py_getitem event ''sender'' = Inr s" "py_subscript c ''body'' = Inr b"
      by blast
    then show ?thesis
      using render_message [OF that(1), of c mt s b repr] by blast
  qed
  have 5: "get_message_content_from_event repr event = Inr (PStr t)"
    if "py_getitem event ''type'' = Inr (PStr t)" "t \<noteq> ''m.room.member''" "t \<noteq> ''m.room.message''"
    for t
    using that by (simp add: render_other_branch)
  show ?thesis
    using 1 2 3 4 5 by blast
qed

text \<open>
  The hypotheses of C9 at a ban, at an image, at a join and at a topic change.
\<close>

theorem rendering_partial_witness:
  "get_message_content_from_event example_repr example_event_ban = Inl (UnboundLocalError ''content'')
   \<and> py_getitem example_event_ban ''type'' = Inr (PStr ''m.room.member'')
   \<and> py_getitem example_event_ban ''membership'' = Inr (PStr ''ban'')
   \<and> get_message_content_from_event example_repr example_event_bot_image
       = Inl (UnboundLocalError ''content'')
   \<and> py_getitem example_event_join ''type'' = Inr (PStr ''m.room.member'')
   \<and> py_getitem example_event_join ''membership'' = Inr (PStr ''join'')
   \<and> py_getitem example_event_join ''sender'' = Inr (PStr ''bob'')
   \<and> get_message_content_from_event example_repr example_event_join = Inr (PStr ''bob joined'')
   \<and> py_getitem [(''type'', PStr ''m.room.topic'')] ''type'' = Inr (PStr ''m.room.topic'')
   \<and> get_message_content_from_event example_repr [(''type'', PStr ''m.room.topic'')]
       = Inr (PStr ''m.room.topic'')"
proof -
  have b1: "py_getitem example_event_ban ''type'' = Inr (PStr ''m.room.member'')"
    and b2: "py_getitem example_event_ban ''membership'' = Inr (PStr ''ban'')"
    and i1: "py_getitem example_event_bot_image ''type'' = Inr (PStr ''m.room.message'')"
    and i2: "py_getitem example_event_bot_image ''content''
               = Inr (PDict [(''msgtype'', PStr ''m.image''), (''body'', PStr ''cat.png'')])"
    and i3: "py_subscript (PDict [(''msgtype'', PStr ''m.image''), (''body'', PStr ''cat.png'')])
               ''msgtype'' = Inr (PStr ''m.image'')"
    and j1: "py_getitem example_event_join ''type'' = Inr (PStr ''m.room.member'')"
    and j2: "py_getitem example_event_join ''membership'' = Inr (PStr ''join'')"
    and j3: "py_getitem example_event_join ''sender'' = Inr (PStr ''bob'')"
    and t1: "py_getitem [(''type'', PStr ''m.room.topic'')] ''type'' = Inr (PStr ''m.room.topic'')"
    by (simp_all add: example_defs py_getitem_def py_subscript_def)
  have ban: "get_message_content_from_event example_repr example_event_ban
               = Inl (UnboundLocalError ''content'')"
    using rendering_partial [of example_repr example_event_ban] b1 b2 by simp
  have img: "get_message_content_from_event example_repr example_event_bot_image
               = Inl (UnboundLocalError ''content'')"
    using rendering_partial [of example_repr example_event_bot_image] i1 i2 i3 by simp
  have "\<exists>str. get_message_content_from_event example_repr example_event_join = Inr (PStr str)"
    using rendering_partial [of example_repr example_event_join] j1 j2 j3 by simp
  moreover have "get_message_content_from_event example_repr example_event_join
                   = Inr (PStr ''bob joined'') \<or>
                 (\<forall>str. get_message_content_from_event example_repr example_event_join
                   \<noteq> Inr (PStr str))"
    by (simp add: example_defs get_message_content_from_event_def py_getitem_def py_str_def)
  ultimately have join: "get_message_content_from_event example_repr example_event_join
                   = Inr (PStr ''bob joined'')"
    by blast
  have topic: "get_message_content_from_event example_repr [(''type'', PStr ''m.room.topic'')]
       = Inr (PStr ''m.room.topic'')"
    using rendering_partial [of example_repr "[(''type'', PStr ''m.room.topic'')]"] t1 by simp
  show ?thesis
    using b1 b2 j1 j2 j3 t1 ban img join topic by blast
qed

text \<open>
  C9 as stated fails on a text event without a body: its msgtype is \<^verbatim>\<open>m.text\<close>, and the
  function raises \<^verbatim>\<open>KeyError\<close> where the claim has it return a string.
\<close>

theorem text_without_body_counterexample:
  "py_getitem example_event_no_body ''type'' = Inr (PStr ''m.room.message'')
   \<and> py_getitem example_event_no_body ''content'' = Inr (PDict [(''msgtype'', PStr ''m.text'')])
   \<and> py_subscript (PDict [(''msgtype'', PStr ''m.text'')]) ''msgtype'' = Inr (PStr ''m.text'')
   \<and> get_message_content_from_event example_repr example_event_no_body = Inl (KeyError ''body'')"
  by (simp add: example_defs get_message_content_from_event_def py_getitem_def py_subscript_def)

subsection \<open>C10: rendering runs before the filter\<close>

text \<open>
  Claim C10. The Matrix -> Zulip callback renders the content of every event before it
  evaluates the filter: a failure of the rendering leaves the callback, with no send
  issued, also on an event that the filter would have dropped.
\<close>

theorem rendering_failure_propagates:
  "get_message_content_from_event repr event = Inl e \<Longrightarrow>
   matrix_to_zulip repr client zc mc room event = ([], Inl e)"
  by (simp add: matrix_to_zulip_def)

text \<open>
  The hypothesis of C10 at an image that the bot itself posted: the filter would drop it,
  and the callback raises.
\<close>

theorem rendering_failure_propagates_witness:
  "get_message_content_from_event example_repr example_event_bot_image
     = Inl (UnboundLocalError ''content'')
   \<and> not_from_zulip_bot example_matrix_config example_event_bot_image = Inr False
   \<and> matrix_to_zulip example_repr example_client example_zulip_config example_matrix_config ()
        example_event_bot_image = ([], Inl (UnboundLocalError ''content''))"
proof -
  have r: "get_message_content_from_event example_repr example_event_bot_image
     = Inl (UnboundLocalError ''content'')"
    by (simp add: example_defs get_message_content_from_event_def py_getitem_def py_subscript_def)
  have f: "not_from_zulip_bot example_matrix_config example_event_bot_image = Inr False"
    by (simp add: example_defs not_from_zulip_bot_def py_getitem_def py_contains_def
        zulip_bot_user_def)
  show ?thesis
    using r f rendering_failure_propagates [OF r, of example_client example_zulip_config
        example_matrix_config "()"]
    by simp
qed

end
